theory Spec2Isabelle
  imports Main "HOL-Library.Word"
begin

section \<open>Values shared by the two packages\<close>

text \<open>
  Go's \<open>int64\<close> is a 64-bit word read in two's complement: \<open>+\<close> and \<open>-\<close> wrap, and the
  comparisons of the source are comparisons of \<open>sint\<close>. A Go \<open>string\<close> is a byte sequence,
  here a \<open>string\<close> (a list of 8-bit characters). A \<open>time.Time\<close> is kept as the text it was
  decoded from.
\<close>

type_synonym int64 = "64 word"
type_synonym Time = string

section \<open>Package confluence: the data model\<close>

text \<open>
  The structs of the package, field by field. Isabelle's record fields share one name space,
  so the fields of the request structs carry a prefix (\<open>Upd_\<close> for
  \<open>ContentUpdateOperationRequest\<close>, \<open>New_\<close> for \<open>ContentNewOperationRequest\<close>, \<open>Op_\<close> for
  \<open>ContentOperationVersion\<close>) and \<open>ContentDetailVersion.CreatedAt\<close> is \<open>Version_CreatedAt\<close>.
\<close>

record ContentOperationBodyStorage =
  Value :: string
  Representation :: string

record ContentOperationBody =
  Storage :: ContentOperationBodyStorage

record ContentOperationVersion =
  Op_Number :: int64

record ContentDetailVersion =
  Number :: int64
  Version_CreatedAt :: Time

record ContentDetail =
  Id :: int64
  Title :: string
  Version :: ContentDetailVersion
  SpaceId :: int64
  CreatedAt :: Time
  Body :: ContentOperationBody
  ParentContentId :: int64
  ResponseStatusCode :: int
  ResponseStatus :: string
  ResponseBody :: string

record ContentUpdateOperationRequest =
  Upd_Id :: int64
  Upd_Status :: string
  Upd_Title :: string
  Upd_SpaceId :: int64
  Upd_Body :: ContentOperationBody
  Upd_Version :: ContentOperationVersion

record ContentNewOperationRequest =
  New_Status :: string
  New_Title :: string
  New_SpaceId :: int64
  New_Body :: ContentOperationBody
  New_Version :: ContentOperationVersion
  New_ParentContentId :: int64

record Config =
  baseUrl :: string
  userName :: string
  apiKey :: string

text \<open>The zero values \<open>ContentDetail{}\<close>, \<open>ContentUpdateOperationRequest{}\<close>, \<open>ContentNewOperationRequest{}\<close>.\<close>

definition zero_Body :: ContentOperationBody where
  "zero_Body = \<lparr>Storage = \<lparr>Value = [], Representation = []\<rparr>\<rparr>"

definition zero_ContentDetail :: ContentDetail where
  "zero_ContentDetail =
     \<lparr>Id = 0, Title = [], Version = \<lparr>Number = 0, Version_CreatedAt = []\<rparr>, SpaceId = 0,
      CreatedAt = [], Body = zero_Body, ParentContentId = 0,
      ResponseStatusCode = 0, ResponseStatus = [], ResponseBody = []\<rparr>"

definition zero_UpdateRequest :: ContentUpdateOperationRequest where
  "zero_UpdateRequest =
     \<lparr>Upd_Id = 0, Upd_Status = [], Upd_Title = [], Upd_SpaceId = 0, Upd_Body = zero_Body,
      Upd_Version = \<lparr>Op_Number = 0\<rparr>\<rparr>"

definition zero_NewRequest :: ContentNewOperationRequest where
  "zero_NewRequest =
     \<lparr>New_Status = [], New_Title = [], New_SpaceId = 0, New_Body = zero_Body,
      New_Version = \<lparr>Op_Number = 0\<rparr>, New_ParentContentId = 0\<rparr>"

section \<open>Errors and response bodies\<close>

text \<open>
  Go's \<open>error\<close> values. \<open>EOF\<close> is \<open>io.EOF\<close>; \<open>Lib m\<close> is any other error value handed
  back by a library (net/http, net/url, io, encoding/json, encoding/xml, x/net/html) with its
  message; \<open>Errorf m\<close> is \<open>fmt.Errorf\<close> with the message \<open>m\<close>. The three \<open>fmt.Errorf\<close> calls
  of the client that format a response keep their arguments instead of the formatted text:
  \<open>ErrorCreating code status body\<close> is
  \<^verbatim>\<open>"Error Updating content: Status: %d, Reason: %s - Body: %s"\<close> (the message of CreateNewPage),
  \<open>ErrorUpdating code status\<close> is \<^verbatim>\<open>"Error Updating content: Status: %d, Reason: %s"\<close> and
  \<open>ErrorDeleting code status\<close> is \<^verbatim>\<open>"Error Deleting content: Status: %d, Reason: %s"\<close>.

  The bytes of a response body stand for what \<open>json.Unmarshal\<close> makes of them when the
  target is a zero \<open>ContentDetail\<close>: \<open>Json d\<close> is a JSON text that decodes to \<open>d\<close> (fields
  the text does not mention stay zero), \<open>Malformed t err\<close> is a text \<open>t\<close> that
  \<open>json.Unmarshal\<close> rejects with \<open>err\<close>.
\<close>

datatype error =
    EOF
  | Lib string
  | Errorf string
  | ErrorCreating int string bytes
  | ErrorUpdating int string
  | ErrorDeleting int string
and bytes =
    Json ContentDetail
  | Malformed string error

text \<open>\<open>strings.Contains s substr\<close>: \<open>substr\<close> occurs in \<open>s\<close> as a contiguous run of bytes.\<close>

primrec Contains :: "string \<Rightarrow> string \<Rightarrow> bool" where
  "Contains [] substr = (substr = [])"
| "Contains (c # cs) substr = (take (length substr) (c # cs) = substr \<or> Contains cs substr)"

section \<open>Package confluencevalidators\<close>

text \<open>
  \<open>encoding/xml\<close> is not part of the repository. What \<open>isValidConfluenceHtmlInternal\<close> sees of
  the decoder it creates (non-strict, \<open>HTMLAutoClose\<close>, \<open>HTMLEntity\<close>) over
  \<open>strings.NewReader htmlStr\<close> is the run of its \<open>d.Token()\<close> calls: the tokens delivered
  with a nil error, and then the first non-nil error, which is \<open>io.EOF\<close> after a clean parse
  and a syntax error otherwise. That run is a parameter of the function.
\<close>

datatype Token =
    StartElement string
  | EndElement string
  | CharData string
  | Comment string
  | ProcInst string
  | Directive string

type_synonym xml_run = "Token list \<times> error"

text \<open>\<open>fmt.Errorf("Invalid Html specified. Suggestion: %s", suggestion)\<close>.\<close>

definition InvalidHtml :: "string \<Rightarrow> error" where
  "InvalidHtml suggestion = Errorf (''Invalid Html specified. Suggestion: '' @ suggestion)"

text \<open>
  The \<open>for\<close> loop of \<open>isValidConfluenceHtmlInternal\<close> with its \<open>switch err\<close>: \<open>case nil\<close> goes
  round again, \<open>case io.EOF\<close> runs the two substring checks, \<open>default\<close> returns the error.
\<close>

fun token_loop :: "Token list \<Rightarrow> error \<Rightarrow> string \<Rightarrow> error option" where
  "token_loop (tt # tokens) err htmlStr = token_loop tokens err htmlStr"
| "token_loop [] err htmlStr =
     (if err = EOF then
        (if Contains htmlStr ''<br>'' \<or> Contains htmlStr ''<br/>''
         then Some (InvalidHtml ''Conflence requires: <br />'')
         else if Contains htmlStr ''<hr>'' \<or> Contains htmlStr ''<hr/>''
         then Some (InvalidHtml ''Conflence requires: <hr />'')
         else None)
      else Some err)"

definition isValidConfluenceHtmlInternal :: "xml_run \<Rightarrow> string \<Rightarrow> error option" where
  "isValidConfluenceHtmlInternal run htmlStr =
     (case run of (tokens, err) \<Rightarrow> token_loop tokens err htmlStr)"

section \<open>Package confluence: the markup check of the client\<close>

text \<open>
  \<open>golang.org/x/net/html\<close> is not part of the repository either. \<open>isValidHTML\<close> sees of a
  tokenizer over \<open>strings.NewReader htmlStr\<close> the token types \<open>z.Next()\<close> returns and, at the
  first \<open>ErrorToken\<close>, the value of \<open>z.Err()\<close>. The tokenizer is a parameter: a function from
  the input to the token types returned before the first \<open>ErrorToken\<close> and the error reported
  there. (An \<open>ErrorToken\<close> inside the list ends the loop as it does in the source.)
\<close>

datatype TokenType =
    ErrorToken
  | TextToken
  | StartTagToken
  | EndTagToken
  | SelfClosingTagToken
  | CommentToken
  | DoctypeToken

type_synonym html_Tokenizer = "string \<Rightarrow> TokenType list \<times> error"

fun next_loop :: "TokenType list \<Rightarrow> error \<Rightarrow> error option" where
  "next_loop [] err = (if err = EOF then None else Some err)"
| "next_loop (tt # tts) err =
     (if tt = ErrorToken then (if err = EOF then None else Some err)
      else next_loop tts err)"

definition isValidHTML :: "html_Tokenizer \<Rightarrow> string \<Rightarrow> error option" where
  "isValidHTML tokenizer htmlStr = (case tokenizer htmlStr of (tts, err) \<Rightarrow> next_loop tts err)"

section \<open>Package confluence: HTTP as the client sees it\<close>

text \<open>
  The four URL formats of the package, each applied to its arguments by \<open>fmt.Sprintf\<close>:
  \<^item> \<open>ContentDetailUrl b i\<close> is \<^verbatim>\<open>"%s/wiki/api/v2/pages/%d?body-format=storage"\<close>,
  \<^item> \<open>ContentVersionUrl b i\<close> is \<^verbatim>\<open>"%s/wiki/rest/api/content/%d/version/1"\<close>,
  \<^item> \<open>UpdateDeleteContentUrl b i\<close> is \<^verbatim>\<open>"%s/wiki/api/v2/pages/%d"\<close>,
  \<^item> \<open>NewContentUrl b\<close> is \<^verbatim>\<open>"%s/wiki/api/v2/pages"\<close>.

  A request body is the JSON text \<open>json.Marshal\<close> makes of a request struct, kept as the struct
  it encodes. (\<open>json.Marshal\<close> cannot fail on these structs of strings and integers, so the
  error branches after it are never taken.)
\<close>

datatype url =
    ContentDetailUrl string int64
  | ContentVersionUrl string int64
  | UpdateDeleteContentUrl string int64
  | NewContentUrl string

datatype payload =
    NoBody
  | NewPageJson ContentNewOperationRequest
  | UpdateJson ContentUpdateOperationRequest

record request =
  Method :: string
  Url :: url
  Header :: "(string \<times> string) list"
  Payload :: payload

fun json_Unmarshal :: "bytes \<Rightarrow> error + ContentDetail" where
  "json_Unmarshal (Json d) = Inr d"
| "json_Unmarshal (Malformed t err) = Inl err"

text \<open>
  An \<open>http.Response\<close> as the client reads it: the status code, the status line and what
  \<open>ioutil.ReadAll\<close> returns for the body (the bytes read and the error).
\<close>

record response =
  StatusCode :: int
  Status :: string
  ReadAll :: "bytes \<times> error option"

text \<open>
  What \<open>client.Do\<close> returns: a response and a nil error; a nil response and an error (the
  transport failed); or, when the redirect policy fails, both a response and an error.
\<close>

datatype do_result =
    Response response
  | Failure error
  | RedirectFailure response error

text \<open>
  The libraries the client calls, as parameters: the HTML tokenizer, base64, the error of
  \<open>http.NewRequest\<close> for a method and a URL (a URL that does not parse), and the round trip
  of \<open>client.Do\<close> against a remote store in state \<open>'w\<close>.
\<close>

record 'w env =
  html_NewTokenizer :: html_Tokenizer
  base64_EncodeToString :: "string \<Rightarrow> string"
  http_NewRequest_err :: "string \<Rightarrow> url \<Rightarrow> error option"
  client_Do :: "request \<Rightarrow> 'w \<Rightarrow> do_result \<times> 'w"

text \<open>
  The effects of a run: the state of the remote store, the round trips made so far in order
  (each request with what \<open>client.Do\<close> returned for it), the lines written to standard output
  and the lines written through package \<open>log\<close>.
\<close>

datatype line =
    Println string
  | DeletingVersion int64 url
  | UnableToDelete int string
  | Fatal error

record 'w io =
  world :: 'w
  trips :: "(request \<times> do_result) list"
  stdout :: "line list"
  logged :: "line list"

text \<open>
  How a call ends: it returns a value, the process exits (\<open>os.Exit\<close>, \<open>log.Fatal\<close>) with a
  status, or the goroutine panics.
\<close>

datatype 'a outcome = Return 'a | Exit int | Panic

definition sent :: "'w io \<Rightarrow> request list" where
  "sent s = map fst (trips s)"

definition log_Fatal :: "error \<Rightarrow> 'w io \<Rightarrow> 'w io" where
  "log_Fatal err s = s\<lparr>logged := logged s @ [Fatal err]\<rparr>"

definition NewRequest :: "'w env \<Rightarrow> string \<Rightarrow> url \<Rightarrow> payload \<Rightarrow> error + request" where
  "NewRequest env method u body =
     (case http_NewRequest_err env method u of
        Some err \<Rightarrow> Inl err
      | None \<Rightarrow> Inr \<lparr>Method = method, Url = u, Header = [], Payload = body\<rparr>)"

definition Header_Add :: "string \<Rightarrow> string \<Rightarrow> request \<Rightarrow> request" where
  "Header_Add key v req = req\<lparr>Header := Header req @ [(key, v)]\<rparr>"

definition Do :: "'w env \<Rightarrow> request \<Rightarrow> 'w io \<Rightarrow> do_result \<times> 'w io" where
  "Do env req s =
     (case client_Do env req (world s) of
        (r, w) \<Rightarrow> (r, s\<lparr>world := w, trips := trips s @ [(req, r)]\<rparr>))"

definition basicAuth :: "'w env \<Rightarrow> string \<Rightarrow> string \<Rightarrow> string" where
  "basicAuth env username password = base64_EncodeToString env (username @ '':'' @ password)"

section \<open>Package confluence: the operations\<close>

definition NewNewOperationRequest ::
  "'w env \<Rightarrow> string \<Rightarrow> int64 \<Rightarrow> string \<Rightarrow> int64 \<Rightarrow> error + ContentNewOperationRequest" where
  "NewNewOperationRequest env title spaceId body parentContentId =
     (case isValidHTML (html_NewTokenizer env) body of
        Some htmlErr \<Rightarrow> Inl htmlErr
      | None \<Rightarrow>
          Inr (zero_NewRequest
                \<lparr>New_Status := ''current'',
                 New_Title := title,
                 New_SpaceId := spaceId,
                 New_Body := \<lparr>Storage = \<lparr>Value = body, Representation = ''storage''\<rparr>\<rparr>,
                 New_ParentContentId := parentContentId\<rparr>))"

definition NewUpdateOperationRequest ::
  "'w env \<Rightarrow> ContentDetail \<Rightarrow> string \<Rightarrow> error + ContentUpdateOperationRequest" where
  "NewUpdateOperationRequest env detail body =
     (case isValidHTML (html_NewTokenizer env) body of
        Some htmlErr \<Rightarrow> Inl htmlErr
      | None \<Rightarrow>
          (let nextVersion = Number (Version detail) + 1
           in Inr (zero_UpdateRequest
                    \<lparr>Upd_Id := Id detail,
                     Upd_Status := ''current'',
                     Upd_Title := Title detail,
                     Upd_SpaceId := SpaceId detail,
                     Upd_Body := \<lparr>Storage = \<lparr>Value = body, Representation = ''storage''\<rparr>\<rparr>,
                     Upd_Version := \<lparr>Op_Number = nextVersion\<rparr>\<rparr>)))"

definition GetContentDetailById ::
  "'w env \<Rightarrow> Config \<Rightarrow> int64 \<Rightarrow> 'w io \<Rightarrow> (ContentDetail \<times> error option) outcome \<times> 'w io" where
  "GetContentDetailById env config contentId s =
     (let auth = basicAuth env (userName config) (apiKey config);
          requestUrl = ContentDetailUrl (baseUrl config) contentId
      in case NewRequest env ''GET'' requestUrl NoBody of
           Inl err \<Rightarrow> (Return (zero_ContentDetail, Some err), s)
         | Inr req \<Rightarrow>
             (case Do env (Header_Add ''Authorization'' (''Basic '' @ auth) req) s of
                (Failure err, s1) \<Rightarrow> (Return (zero_ContentDetail, Some err), s1)
              | (RedirectFailure resp err, s1) \<Rightarrow> (Return (zero_ContentDetail, Some err), s1)
              | (Response resp, s1) \<Rightarrow>
                  (case ReadAll resp of
                     (responseData, Some err) \<Rightarrow> (Return (zero_ContentDetail, Some err), s1)
                   | (responseData, None) \<Rightarrow>
                       (case json_Unmarshal responseData of
                          Inl err \<Rightarrow> (Exit 1, log_Fatal err s1)
                        | Inr contentDetail \<Rightarrow>
                            (Return (contentDetail
                                       \<lparr>ResponseStatusCode := StatusCode resp,
                                        ResponseStatus := Status resp\<rparr>, None), s1)))))"

text \<open>
  The \<open>for\<close> loop of \<open>RemovePreviousVersions\<close>. The counter is the only thing that ends it;
  \<open>log.Fatal\<close> on a request that cannot be built or on a failed round trip ends the process.
\<close>

function deleteLoop ::
  "'w env \<Rightarrow> url \<Rightarrow> string \<Rightarrow> int64 \<Rightarrow> 'w io \<Rightarrow> error option outcome \<times> 'w io" where
  "deleteLoop env deleteRequestUrl auth versionsToDelete s =
     (if sint versionsToDelete \<le> 0 then (Return None, s)
      else
        (let s0 = s\<lparr>stdout := stdout s @ [DeletingVersion versionsToDelete deleteRequestUrl]\<rparr>
         in case NewRequest env ''DELETE'' deleteRequestUrl NoBody of
              Inl err \<Rightarrow> (Exit 1, log_Fatal err s0)
            | Inr deleteReq \<Rightarrow>
                (case Do env (Header_Add ''Authorization'' (''Basic '' @ auth) deleteReq) s0 of
                   (Failure err, s1) \<Rightarrow> (Exit 1, log_Fatal err s1)
                 | (RedirectFailure resp err, s1) \<Rightarrow> (Exit 1, log_Fatal err s1)
                 | (Response deleteResponse, s1) \<Rightarrow>
                     deleteLoop env deleteRequestUrl auth (versionsToDelete - 1)
                       (if StatusCode deleteResponse \<noteq> 204
                        then s1\<lparr>logged := logged s1 @
                                 [UnableToDelete (StatusCode deleteResponse) (Status deleteResponse)]\<rparr>
                        else s1))))"
  by pat_completeness auto

termination deleteLoop
proof (relation "measure (\<lambda>(env, u, auth, n, s). nat (sint n))")
  show "wf (measure (\<lambda>(env :: 'w env, u :: url, auth :: string, n :: int64, s :: 'w io). nat (sint n)))"
    by simp
next
  fix env :: "'w env" and deleteRequestUrl :: url and auth :: string
    and versionsToDelete :: int64 and s xa xb :: "'w io"
  assume pos: "\<not> sint versionsToDelete \<le> 0"
  have up: "sint versionsToDelete < 2 ^ 63"
    using sint_lt [of versionsToDelete] by simp
  have "sint (versionsToDelete - 1) = signed_take_bit 63 (sint versionsToDelete - 1)"
    by (simp add: sint_word_diff)
  also have "\<dots> = sint versionsToDelete - 1"
    by (rule signed_take_bit_int_eq_self) (use pos up in simp_all)
  finally have "nat (sint (versionsToDelete - 1)) < nat (sint versionsToDelete)"
    using pos by simp
  then show "((env, deleteRequestUrl, auth, versionsToDelete - 1, xa),
              (env, deleteRequestUrl, auth, versionsToDelete, s))
             \<in> measure (\<lambda>(env, u, auth, n, s). nat (sint n))"
    by simp
qed

declare deleteLoop.simps [simp del]

definition RemovePreviousVersions ::
  "'w env \<Rightarrow> Config \<Rightarrow> int64 \<Rightarrow> int64 \<Rightarrow> 'w io \<Rightarrow> error option outcome \<times> 'w io" where
  "RemovePreviousVersions env config contentId numberOfVersionsToKeep s =
     (if sint numberOfVersionsToKeep < 1
      then (Exit 1, s\<lparr>stdout := stdout s @ [Println ''Must keep at least 1 version'']\<rparr>)
      else
        (case GetContentDetailById env config contentId s of
           (Exit c, s1) \<Rightarrow> (Exit c, s1)
         | (Panic, s1) \<Rightarrow> (Panic, s1)
         | (Return (contentDetail, Some err), s1) \<Rightarrow> (Exit 1, log_Fatal err s1)
         | (Return (contentDetail, None), s1) \<Rightarrow>
             (let versionsToDelete = Number (Version contentDetail) - numberOfVersionsToKeep;
                  deleteRequestUrl = ContentVersionUrl (baseUrl config) contentId;
                  auth = basicAuth env (userName config) (apiKey config)
              in deleteLoop env deleteRequestUrl auth versionsToDelete s1)))"

definition UpdateContentById ::
  "'w env \<Rightarrow> Config \<Rightarrow> int64 \<Rightarrow> string \<Rightarrow> bool \<Rightarrow> 'w io
     \<Rightarrow> (ContentDetail \<times> error option) outcome \<times> 'w io" where
  "UpdateContentById env config contentId body removePreviousVersions s =
     (case GetContentDetailById env config contentId s of
        (Exit c, s1) \<Rightarrow> (Exit c, s1)
      | (Panic, s1) \<Rightarrow> (Panic, s1)
      | (Return (contentDetail, Some err), s1) \<Rightarrow> (Exit 1, log_Fatal err s1)
      | (Return (contentDetail, None), s1) \<Rightarrow>
          (case NewUpdateOperationRequest env contentDetail body of
             Inl err \<Rightarrow> (Exit 1, log_Fatal err s1)
           | Inr updateRequest \<Rightarrow>
               (let requestUrl = UpdateDeleteContentUrl (baseUrl config) contentId;
                    auth = basicAuth env (userName config) (apiKey config)
                in case NewRequest env ''PUT'' requestUrl (UpdateJson updateRequest) of
                     Inl err \<Rightarrow> (Return (zero_ContentDetail, Some err), s1)
                   | Inr upReq \<Rightarrow>
                       (case Do env (Header_Add ''Content-Type'' ''application/json''
                                      (Header_Add ''Authorization'' (''Basic '' @ auth) upReq)) s1 of
                          (Failure err, s2) \<Rightarrow> (Return (zero_ContentDetail, Some err), s2)
                        | (RedirectFailure resp err, s2) \<Rightarrow> (Return (zero_ContentDetail, Some err), s2)
                        | (Response upResp, s2) \<Rightarrow>
                            (if StatusCode upResp \<noteq> 200
                             then (Return (zero_ContentDetail,
                                     Some (ErrorUpdating (StatusCode upResp) (Status upResp))), s2)
                             else if removePreviousVersions
                             then (case RemovePreviousVersions env config contentId 1 s2 of
                                     (Exit c, s3) \<Rightarrow> (Exit c, s3)
                                   | (Panic, s3) \<Rightarrow> (Panic, s3)
                                   | (Return (Some err), s3) \<Rightarrow> (Exit 1, log_Fatal err s3)
                                   | (Return None, s3) \<Rightarrow> GetContentDetailById env config contentId s3)
                             else GetContentDetailById env config contentId s2)))))"


text \<open>
  \<open>DeleteContentById\<close> returns \<open>*upResp\<close> on every path. After a failed round trip \<open>upResp\<close>
  is nil, and dereferencing it panics.
\<close>

definition DeleteContentById ::
  "'w env \<Rightarrow> Config \<Rightarrow> int64 \<Rightarrow> 'w io \<Rightarrow> (response \<times> error option) outcome \<times> 'w io" where
  "DeleteContentById env config contentId s =
     (let requestUrl = UpdateDeleteContentUrl (baseUrl config) contentId;
          auth = basicAuth env (userName config) (apiKey config)
      in case NewRequest env ''DELETE'' requestUrl NoBody of
           Inl err \<Rightarrow> (Exit 1, log_Fatal err s)
         | Inr upReq \<Rightarrow>
             (case Do env (Header_Add ''Content-Type'' ''application/json''
                            (Header_Add ''Authorization'' (''Basic '' @ auth) upReq)) s of
                (Failure err, s1) \<Rightarrow> (Panic, s1)
              | (RedirectFailure upResp err, s1) \<Rightarrow> (Return (upResp, Some err), s1)
              | (Response upResp, s1) \<Rightarrow>
                  (if StatusCode upResp \<noteq> 200
                   then (Return (upResp, Some (ErrorDeleting (StatusCode upResp) (Status upResp))), s1)
                   else (Return (upResp, None), s1))))"

section \<open>A remote store for the scenarios\<close>

text \<open>
  Modelled from the spec: the remote content store, which is a service outside the
  repository. It follows the wire contract of the specification: a GET of a page answers
  200 with the record (404 when the page is absent, with a JSON error text that decodes to
  the zero record); a PUT whose version number is the current one plus one answers 200,
  replaces title and body, takes the new version number and keeps the old version in the
  history; a DELETE on the version endpoint answers 204 and drops one old version (400 when
  there is none). The store keeps, for each page, the current record and the number of old
  versions in its history.
\<close>

record stored =
  current :: ContentDetail
  older :: nat

type_synonym store = "int64 \<Rightarrow> stored option"

definition respond :: "int \<Rightarrow> string \<Rightarrow> ContentDetail \<Rightarrow> do_result" where
  "respond code status d = Response \<lparr>StatusCode = code, Status = status, ReadAll = (Json d, None)\<rparr>"

definition no_content :: do_result where
  "no_content =
     Response \<lparr>StatusCode = 204, Status = ''204 No Content'',
               ReadAll = (Malformed [] (Lib ''unexpected end of JSON input''), None)\<rparr>"

definition store_put :: "ContentUpdateOperationRequest \<Rightarrow> stored \<Rightarrow> stored" where
  "store_put r p =
     \<lparr>current = (current p)
        \<lparr>Title := Upd_Title r,
         Version := (Version (current p))\<lparr>Number := Op_Number (Upd_Version r)\<rparr>,
         Body := Upd_Body r\<rparr>,
      older = Suc (older p)\<rparr>"

definition store_Do :: "request \<Rightarrow> store \<Rightarrow> do_result \<times> store" where
  "store_Do req w =
     (case Url req of
        ContentDetailUrl b i \<Rightarrow>
          (if Method req \<noteq> ''GET'' then (respond 405 ''405 Method Not Allowed'' zero_ContentDetail, w)
           else case w i of
                  None \<Rightarrow> (respond 404 ''404 Not Found'' zero_ContentDetail, w)
                | Some p \<Rightarrow> (respond 200 ''200 OK'' (current p), w))
      | UpdateDeleteContentUrl b i \<Rightarrow>
          (if Method req \<noteq> ''PUT'' then (respond 405 ''405 Method Not Allowed'' zero_ContentDetail, w)
           else case w i of
                  None \<Rightarrow> (respond 404 ''404 Not Found'' zero_ContentDetail, w)
                | Some p \<Rightarrow>
                    (case Payload req of
                       UpdateJson r \<Rightarrow>
                         (if Op_Number (Upd_Version r) = Number (Version (current p)) + 1
                          then (respond 200 ''200 OK'' (current (store_put r p)), w(i \<mapsto> store_put r p))
                          else (respond 409 ''409 Conflict'' zero_ContentDetail, w))
                     | _ \<Rightarrow> (respond 400 ''400 Bad Request'' zero_ContentDetail, w)))
      | ContentVersionUrl b i \<Rightarrow>
          (if Method req \<noteq> ''DELETE'' then (respond 405 ''405 Method Not Allowed'' zero_ContentDetail, w)
           else case w i of
                  None \<Rightarrow> (respond 404 ''404 Not Found'' zero_ContentDetail, w)
                | Some p \<Rightarrow>
                    (if older p = 0 then (respond 400 ''400 Bad Request'' zero_ContentDetail, w)
                     else (no_content, w(i \<mapsto> p\<lparr>older := older p - 1\<rparr>))))
      | NewContentUrl b \<Rightarrow> (respond 405 ''405 Method Not Allowed'' zero_ContentDetail, w))"

text \<open>
  The libraries of the scenarios: a tokenizer that reaches the end of every input (three
  tokens for \<^verbatim>\<open><p>v2</p>\<close>, one text token for any other non-empty input), every URL
  accepted by \<open>http.NewRequest\<close>, and the store above behind \<open>client.Do\<close>. The store does not
  read headers, so base64 is left as the identity.
\<close>

definition scenario_Tokenizer :: html_Tokenizer where
  "scenario_Tokenizer htmlStr =
     (if htmlStr = ''<p>v2</p>'' then ([StartTagToken, TextToken, EndTagToken], EOF)
      else if htmlStr = [] then ([], EOF)
      else ([TextToken], EOF))"

definition scenario_env :: "store env" where
  "scenario_env =
     \<lparr>html_NewTokenizer = scenario_Tokenizer,
      base64_EncodeToString = (\<lambda>s. s),
      http_NewRequest_err = (\<lambda>method u. None),
      client_Do = store_Do\<rparr>"

definition scenario_config :: Config where
  "scenario_config = \<lparr>baseUrl = ''https://wiki.example'', userName = ''user'', apiKey = ''key''\<rparr>"

definition page_v :: "int64 \<Rightarrow> string \<Rightarrow> ContentDetail" where
  "page_v n markup =
     zero_ContentDetail
       \<lparr>Id := 100, Title := ''Page'', Version := \<lparr>Number = n, Version_CreatedAt = []\<rparr>,
        SpaceId := 7, Body := \<lparr>Storage = \<lparr>Value = markup, Representation = ''storage''\<rparr>\<rparr>,
        ParentContentId := 1\<rparr>"

definition start :: "'w \<Rightarrow> 'w io" where
  "start w = \<lparr>world = w, trips = [], stdout = [], logged = []\<rparr>"

text \<open>The store of the end-to-end scenario: page 100 at version 1, no old versions.\<close>

definition store_v1 :: store where
  "store_v1 = Map.empty(100 \<mapsto> \<lparr>current = page_v 1 ''<p>v1</p>'', older = 0\<rparr>)"

text \<open>What a request looks like on the wire, for reading a trace: method and URL, and with the body.\<close>

definition wire :: "request \<Rightarrow> string \<times> url" where
  "wire req = (Method req, Url req)"

definition wire_body :: "request \<Rightarrow> string \<times> url \<times> payload" where
  "wire_body req = (Method req, Url req, Payload req)"

text \<open>
  Page 100 at version 3 with both old versions in the history; the same page with only one
  old version left, so that a second DELETE is answered 400; and the empty store.
\<close>

definition store_v3 :: store where
  "store_v3 = Map.empty(100 \<mapsto> \<lparr>current = page_v 3 ''<p>v3</p>'', older = 2\<rparr>)"

definition store_v3_short :: store where
  "store_v3_short = Map.empty(100 \<mapsto> \<lparr>current = page_v 3 ''<p>v3</p>'', older = 1\<rparr>)"

definition store_empty :: store where
  "store_empty = Map.empty"

text \<open>A network on which every round trip fails: \<open>client.Do\<close> returns a nil response and an error.\<close>

definition down_Do :: "request \<Rightarrow> store \<Rightarrow> do_result \<times> store" where
  "down_Do req w = (Failure (Lib ''dial tcp: connect: connection refused''), w)"

definition down_env :: "store env" where
  "down_env = scenario_env\<lparr>client_Do := down_Do\<rparr>"

text \<open>
  A network on which the store answers as above except that every DELETE fails in the
  transport, and one on which every request is answered 404 with an empty body.
\<close>

definition no_delete_Do :: "request \<Rightarrow> store \<Rightarrow> do_result \<times> store" where
  "no_delete_Do req w =
     (if Method req = ''DELETE'' then (Failure (Lib ''read tcp: connection reset by peer''), w)
      else store_Do req w)"

definition no_delete_env :: "store env" where
  "no_delete_env = scenario_env\<lparr>client_Do := no_delete_Do\<rparr>"

definition bare_404 :: response where
  "bare_404 =
     \<lparr>StatusCode = 404, Status = ''404 Not Found'',
      ReadAll = (Malformed [] (Lib ''unexpected end of JSON input''), None)\<rparr>"

definition bare_404_Do :: "request \<Rightarrow> store \<Rightarrow> do_result \<times> store" where
  "bare_404_Do req w = (Response bare_404, w)"

definition bare_404_env :: "store env" where
  "bare_404_env = scenario_env\<lparr>client_Do := bare_404_Do\<rparr>"

text \<open>
  The runs of the decoder of \<open>isValidConfluenceHtmlInternal\<close> on five inputs, as
  \<open>encoding/xml\<close> delivers them. A self-closing tag gives its start and its end element.
  An element still open when the input ends makes \<open>Token\<close> return the syntax error
  \<open>unexpected EOF\<close>: \<open>HTMLAutoClose\<close> closes a \<open>br\<close> or \<open>hr\<close> only when another token
  follows it.
  \<^item> \<open>run_p_br_slash\<close> is the run on \<^verbatim>\<open><p>ok</p><br/>\<close>,
  \<^item> \<open>run_p_hr_slash\<close> the run on \<^verbatim>\<open><p>ok</p><hr/>\<close>,
  \<^item> \<open>run_br_hr_slash\<close> the run on \<^verbatim>\<open><br/><hr/>\<close>,
  \<^item> \<open>run_p_br\<close> the run on \<^verbatim>\<open><p>ok</p><br>\<close>,
  \<^item> \<open>run_p_hr\<close> the run on \<^verbatim>\<open><p>ok</p><hr>\<close>.
\<close>

definition run_p_br_slash :: xml_run where
  "run_p_br_slash =
     ([StartElement ''p'', CharData ''ok'', EndElement ''p'',
       StartElement ''br'', EndElement ''br''], EOF)"

definition run_p_hr_slash :: xml_run where
  "run_p_hr_slash =
     ([StartElement ''p'', CharData ''ok'', EndElement ''p'',
       StartElement ''hr'', EndElement ''hr''], EOF)"

definition run_br_hr_slash :: xml_run where
  "run_br_hr_slash =
     ([StartElement ''br'', EndElement ''br'', StartElement ''hr'', EndElement ''hr''], EOF)"

definition run_p_br :: xml_run where
  "run_p_br =
     ([StartElement ''p'', CharData ''ok'', EndElement ''p'', StartElement ''br''],
      Lib ''XML syntax error on line 1: unexpected EOF'')"

definition run_p_hr :: xml_run where
  "run_p_hr =
     ([StartElement ''p'', CharData ''ok'', EndElement ''p'', StartElement ''hr''],
      Lib ''XML syntax error on line 1: unexpected EOF'')"

text \<open>
  The line \<open>RemovePreviousVersions\<close> logs for a round trip of its loop: one for a response
  whose status is not 204, none otherwise.
\<close>

fun warning :: "request \<times> do_result \<Rightarrow> line list" where
  "warning (req, Response r) =
     (if StatusCode r \<noteq> 204 then [UnableToDelete (StatusCode r) (Status r)] else [])"
| "warning (req, Failure err) = []"
| "warning (req, RedirectFailure r err) = []"

text \<open>The request of the version-delete loop.\<close>

definition deleteReq :: "'w env \<Rightarrow> Config \<Rightarrow> int64 \<Rightarrow> request" where
  "deleteReq env config contentId =
     \<lparr>Method = ''DELETE'', Url = ContentVersionUrl (baseUrl config) contentId,
      Header = [(''Authorization'', ''Basic '' @ basicAuth env (userName config) (apiKey config))],
      Payload = NoBody\<rparr>"

text \<open>The request of \<open>GetContentDetailById\<close>.\<close>

definition getReq :: "'w env \<Rightarrow> Config \<Rightarrow> int64 \<Rightarrow> request" where
  "getReq env config contentId =
     \<lparr>Method = ''GET'', Url = ContentDetailUrl (baseUrl config) contentId,
      Header = [(''Authorization'', ''Basic '' @ basicAuth env (userName config) (apiKey config))],
      Payload = NoBody\<rparr>"

text \<open>
  \<open>k\<close> calls of \<open>client.Do\<close> in sequence with the same request, each on the store as the
  one before left it: the round trips in order, and the store at the end.
\<close>

fun round_trips :: "'w env \<Rightarrow> request \<Rightarrow> nat \<Rightarrow> 'w \<Rightarrow> (request \<times> do_result) list \<times> 'w" where
  "round_trips env req 0 w = ([], w)"
| "round_trips env req (Suc k) w =
     (case client_Do env req w of
        (r, w1) \<Rightarrow> (case round_trips env req k w1 of (ts, w2) \<Rightarrow> ((req, r) # ts, w2)))"

text \<open>
  The number of iterations of the version-delete loop for a fetched version number and a
  number of versions to keep: their \<open>int64\<close> difference when it is positive, zero otherwise.
\<close>

definition toDelete :: "int64 \<Rightarrow> int64 \<Rightarrow> nat" where
  "toDelete v keep = nat (sint (v - keep))"

text \<open>The values of a counter that starts at \<open>c\<close> and is decremented \<open>k\<close> times.\<close>

fun countdown :: "int64 \<Rightarrow> nat \<Rightarrow> int64 list" where
  "countdown c 0 = []"
| "countdown c (Suc k) = c # countdown (c - 1) k"





section \<open>What the markup check of the client accepts\<close>

lemma next_loop_EOF: "next_loop tts EOF = None"
  by (induction tts) simp_all

lemma isValidHTML_EOF:
  "snd (tokenizer htmlStr) = EOF \<Longrightarrow> isValidHTML tokenizer htmlStr = None"
  by (cases "tokenizer htmlStr") (simp add: isValidHTML_def next_loop_EOF)

text \<open>
  Claim C9. The check run on the Create and Update paths, \<open>isValidHTML\<close>, accepts every
  string, whatever tags it contains: the only way it fails is an error of the tokenizer other
  than \<open>io.EOF\<close>, and over a string reader the tokenizer ends with \<open>io.EOF\<close>. That fact of
  the library is the hypothesis. So the two request builders never return an error.
\<close>

theorem isValidHTML_never_rejects:
  assumes "snd (html_NewTokenizer env body) = EOF"
  shows "isValidHTML (html_NewTokenizer env) body = None
       \<and> (\<exists>r. NewNewOperationRequest env title spaceId body parentContentId = Inr r)
       \<and> (\<exists>r. NewUpdateOperationRequest env detail body = Inr r)"
  using isValidHTML_EOF [of "html_NewTokenizer env" body] assms
  by (simp add: NewNewOperationRequest_def NewUpdateOperationRequest_def)

theorem isValidHTML_never_rejects_witness:
  "snd (html_NewTokenizer scenario_env ''<p>ok</p><br><hr>'') = EOF
   \<and> isValidHTML (html_NewTokenizer scenario_env) ''<p>ok</p><br><hr>'' = None
   \<and> (\<exists>r. NewNewOperationRequest scenario_env ''T'' 7 ''<p>ok</p><br><hr>'' 1 = Inr r)
   \<and> (\<exists>r. NewUpdateOperationRequest scenario_env (page_v 1 ''<p>v1</p>'') ''<p>ok</p><br><hr>'' = Inr r)"
proof -
  have h: "snd (html_NewTokenizer scenario_env ''<p>ok</p><br><hr>'') = EOF"
    by (simp add: scenario_env_def scenario_Tokenizer_def)
  show ?thesis
    using h isValidHTML_never_rejects [OF h, of "''T''" 7 1 "page_v 1 ''<p>v1</p>''"] by simp
qed

section \<open>The update request\<close>




section \<open>Pruning old versions\<close>

text \<open>
  Claim C5. Asked to keep fewer than one version, \<open>RemovePreviousVersions\<close> prints its
  message and ends the process with status 1; no request of any kind is sent and the store
  is left as it was.
\<close>

theorem RemovePreviousVersions_refuses:
  assumes "sint numberOfVersionsToKeep < 1"
  shows "RemovePreviousVersions env config contentId numberOfVersionsToKeep s =
           (Exit 1, s\<lparr>stdout := stdout s @ [Println ''Must keep at least 1 version'']\<rparr>)
         \<and> trips (snd (RemovePreviousVersions env config contentId numberOfVersionsToKeep s)) = trips s
         \<and> world (snd (RemovePreviousVersions env config contentId numberOfVersionsToKeep s)) = world s"
  using assms by (simp add: RemovePreviousVersions_def)

theorem RemovePreviousVersions_refuses_witness:
  "sint (0 :: int64) < 1
   \<and> RemovePreviousVersions scenario_env scenario_config 100 0 (start store_v1) =
       (Exit 1, (start store_v1)\<lparr>stdout := stdout (start store_v1) @ [Println ''Must keep at least 1 version'']\<rparr>)
   \<and> trips (snd (RemovePreviousVersions scenario_env scenario_config 100 0 (start store_v1))) = trips (start store_v1)
   \<and> world (snd (RemovePreviousVersions scenario_env scenario_config 100 0 (start store_v1))) = world (start store_v1)"
proof -
  have h: "sint (0 :: int64) < 1" by simp
  show ?thesis
    using h RemovePreviousVersions_refuses [OF h, of scenario_env scenario_config 100 "start store_v1"]
    by simp
qed

section \<open>Fetching a page and the traces of the operations\<close>

lemma Get_ok:
  assumes "GetContentDetailById env config contentId s = (Return (d, None), s1)"
  shows "\<exists>r. trips s1 = trips s @ [(getReq env config contentId, r)]
           \<and> stdout s1 = stdout s \<and> logged s1 = logged s"
  using assms
  by (auto simp: GetContentDetailById_def NewRequest_def Do_def Header_Add_def getReq_def Let_def
           split: option.splits sum.splits prod.splits do_result.splits)

lemma Get_trips:
  "\<exists>ts. trips (snd (GetContentDetailById env config contentId s)) = trips s @ ts
        \<and> (\<forall>t \<in> set ts. fst t = getReq env config contentId)"
  by (auto simp: GetContentDetailById_def NewRequest_def Do_def Header_Add_def getReq_def Let_def
                 log_Fatal_def
           split: option.splits sum.splits prod.splits do_result.splits)

lemma Get_outcome:
  "(\<exists>d e. fst (GetContentDetailById env config contentId s) = Return (d, e))
    \<or> fst (GetContentDetailById env config contentId s) = Exit 1"
  by (auto simp: GetContentDetailById_def NewRequest_def Do_def Header_Add_def getReq_def Let_def
                 log_Fatal_def
           split: option.splits sum.splits prod.splits do_result.splits)

section \<open>The version-delete loop\<close>

lemma sint_decrement:
  fixes n :: int64
  assumes "0 < sint n"
  shows "sint (n - 1) = sint n - 1"
proof -
  have up: "sint n < 2 ^ 63"
    using sint_lt [of n] by simp
  have "sint (n - 1) = signed_take_bit 63 (sint n - 1)"
    by (simp add: sint_word_diff)
  also have "\<dots> = sint n - 1"
    by (rule signed_take_bit_int_eq_self) (use assms up in simp_all)
  finally show ?thesis .
qed

lemma sint_difference:
  fixes v k :: int64
  assumes "1 \<le> sint k" and "- (2 ^ 63) \<le> sint v - sint k"
  shows "sint (v - k) = sint v - sint k"
proof -
  have up: "sint v < 2 ^ 63"
    using sint_lt [of v] by simp
  have "sint (v - k) = signed_take_bit 63 (sint v - sint k)"
    by (simp add: sint_word_diff)
  also have "\<dots> = sint v - sint k"
    by (rule signed_take_bit_int_eq_self) (use assms up in simp_all)
  finally show ?thesis .
qed

lemma deleteLoop_stop:
  "sint n \<le> 0 \<Longrightarrow> deleteLoop env u auth n s = (Return None, s)"
  by (subst deleteLoop.simps) simp

lemma deleteLoop_step:
  assumes "0 < sint n"
      and "http_NewRequest_err env ''DELETE'' u = None"
      and "client_Do env \<lparr>Method = ''DELETE'', Url = u,
              Header = [(''Authorization'', ''Basic '' @ auth)], Payload = NoBody\<rparr> (world s) = (Response r, w)"
  shows "\<exists>s1. deleteLoop env u auth n s = deleteLoop env u auth (n - 1) s1
           \<and> world s1 = w
           \<and> trips s1 = trips s @ [(\<lparr>Method = ''DELETE'', Url = u,
                   Header = [(''Authorization'', ''Basic '' @ auth)], Payload = NoBody\<rparr>, Response r)]
           \<and> stdout s1 = stdout s @ [DeletingVersion n u]
           \<and> logged s1 = logged s @ warning (\<lparr>Method = ''DELETE'', Url = u,
                   Header = [(''Authorization'', ''Basic '' @ auth)], Payload = NoBody\<rparr>, Response r)"
proof -
  let ?q = "\<lparr>Method = ''DELETE'', Url = u,
              Header = [(''Authorization'', ''Basic '' @ auth)], Payload = NoBody\<rparr>"
  let ?s0 = "s\<lparr>stdout := stdout s @ [DeletingVersion n u], world := w,
               trips := trips s @ [(?q, Response r)]\<rparr>"
  let ?s1 = "if StatusCode r \<noteq> 204
             then ?s0\<lparr>logged := logged ?s0 @ [UnableToDelete (StatusCode r) (Status r)]\<rparr>
             else ?s0"
  have "deleteLoop env u auth n s = deleteLoop env u auth (n - 1) ?s1"
    using assms by (subst deleteLoop.simps) (simp add: NewRequest_def Do_def Header_Add_def)
  moreover have "world ?s1 = w"
    by simp
  moreover have "trips ?s1 = trips s @ [(?q, Response r)]"
    by simp
  moreover have "stdout ?s1 = stdout s @ [DeletingVersion n u]"
    by simp
  moreover have "logged ?s1 = logged s @ warning (?q, Response r)"
    by simp
  ultimately show ?thesis
    by blast
qed

lemma round_trips_requests:
  "map fst (fst (round_trips env req k w)) = replicate k req"
proof (induction k arbitrary: w)
  case 0
  show ?case by simp
next
  case (Suc k)
  obtain r w1 where cd: "client_Do env req w = (r, w1)"
    by (cases "client_Do env req w")
  obtain ts w2 where rt: "round_trips env req k w1 = (ts, w2)"
    by (cases "round_trips env req k w1")
  from Suc [of w1] rt have "map fst ts = replicate k req"
    by simp
  with cd rt show ?case
    by simp
qed

lemma deleteLoop_runs:
  fixes env :: "'w env"
  assumes url: "http_NewRequest_err env ''DELETE'' u = None"
      and answered: "\<forall>t \<in> set (fst (round_trips env \<lparr>Method = ''DELETE'', Url = u,
              Header = [(''Authorization'', ''Basic '' @ auth)], Payload = NoBody\<rparr>
              (nat (sint n)) (world s))). \<exists>r. snd t = Response r"
  shows "\<exists>s'. deleteLoop env u auth n s = (Return None, s')
           \<and> world s' = snd (round_trips env \<lparr>Method = ''DELETE'', Url = u,
              Header = [(''Authorization'', ''Basic '' @ auth)], Payload = NoBody\<rparr>
              (nat (sint n)) (world s))
           \<and> trips s' = trips s @ fst (round_trips env \<lparr>Method = ''DELETE'', Url = u,
              Header = [(''Authorization'', ''Basic '' @ auth)], Payload = NoBody\<rparr>
              (nat (sint n)) (world s))
           \<and> stdout s' = stdout s @ map (\<lambda>c. DeletingVersion c u) (countdown n (nat (sint n)))
           \<and> logged s' = logged s @ concat (map warning (fst (round_trips env \<lparr>Method = ''DELETE'', Url = u,
              Header = [(''Authorization'', ''Basic '' @ auth)], Payload = NoBody\<rparr>
              (nat (sint n)) (world s))))"
  using answered
proof (induction "nat (sint n)" arbitrary: n s)
  case 0
  then have "sint n \<le> 0" by simp
  with 0 show ?case
    by (simp add: deleteLoop_stop)
next
  case (Suc k)
  let ?q = "\<lparr>Method = ''DELETE'', Url = u,
              Header = [(''Authorization'', ''Basic '' @ auth)], Payload = NoBody\<rparr>"
  from Suc.hyps(2) have pos: "0 < sint n" by simp
  have k: "k = nat (sint (n - 1))"
    using Suc.hyps(2) pos by (simp add: sint_decrement)
  obtain r w where cd: "client_Do env ?q (world s) = (r, w)"
    by (cases "client_Do env ?q (world s)")
  obtain ts w2 where rt: "round_trips env ?q k w = (ts, w2)"
    by (cases "round_trips env ?q k w")
  have all: "round_trips env ?q (nat (sint n)) (world s) = ((?q, r) # ts, w2)"
    using cd rt Suc.hyps(2) [symmetric] by simp
  from Suc.prems all obtain r' where r: "r = Response r'"
    by auto
  from Suc.prems all have rest: "\<forall>t \<in> set (fst (round_trips env ?q (nat (sint (n - 1))) w)). \<exists>r. snd t = Response r"
    using rt k by auto
  from deleteLoop_step [OF pos url cd [unfolded r]]
  obtain s1 where step: "deleteLoop env u auth n s = deleteLoop env u auth (n - 1) s1"
      and w1: "world s1 = w"
      and t1: "trips s1 = trips s @ [(?q, Response r')]"
      and o1: "stdout s1 = stdout s @ [DeletingVersion n u]"
      and l1: "logged s1 = logged s @ warning (?q, Response r')"
    by blast
  from Suc.hyps(1) [OF k, of s1] rest w1
  obtain s' where loop: "deleteLoop env u auth (n - 1) s1 = (Return None, s')"
      and w': "world s' = snd (round_trips env ?q (nat (sint (n - 1))) w)"
      and t': "trips s' = trips s1 @ fst (round_trips env ?q (nat (sint (n - 1))) w)"
      and o': "stdout s' = stdout s1 @ map (\<lambda>c. DeletingVersion c u) (countdown (n - 1) (nat (sint (n - 1))))"
      and l': "logged s' = logged s1 @ concat (map warning (fst (round_trips env ?q (nat (sint (n - 1))) w)))"
    by auto
  have cnt: "countdown n (nat (sint n)) = n # countdown (n - 1) k"
    using Suc.hyps(2) [symmetric] by simp
  have "deleteLoop env u auth n s = (Return None, s')"
    using step loop by simp
  moreover have "world s' = snd (round_trips env ?q (nat (sint n)) (world s))"
    using w' all rt k by simp
  moreover have "trips s' = trips s @ fst (round_trips env ?q (nat (sint n)) (world s))"
    using t' t1 all rt k r by simp
  moreover have "stdout s' = stdout s @ map (\<lambda>c. DeletingVersion c u) (countdown n (nat (sint n)))"
    using o' o1 cnt k by simp
  moreover have "logged s' = logged s @ concat (map warning (fst (round_trips env ?q (nat (sint n)) (world s))))"
    using l' l1 all rt k r by simp
  ultimately show ?case
    by blast
qed

text \<open>
  Claim C4, as amended. Asked to keep at least one version, with the page fetched at version
  number \<open>v\<close>, and provided each DELETE round trip is answered by a response,
  \<open>RemovePreviousVersions\<close> makes after its one GET exactly \<open>toDelete v keep\<close> calls of
  \<open>client.Do\<close> in sequence, all with the same DELETE request to the version endpoint of the
  page and none of anything else: these are the round trips it adds to the trace, and the
  store is left as the last of them leaves it. It prints its counter before each call, from
  \<open>v - keep\<close> down to 1, logs one line for each response whose status is not 204, goes on to
  the end and returns nil. The number of calls is \<open>v - keep\<close> in \<open>int64\<close> arithmetic when that
  is positive and zero otherwise; it is the integer \<open>max (v - keep) 0\<close> whenever the
  subtraction does not wrap.
\<close>

theorem RemovePreviousVersions_runs_the_deletes:
  fixes env :: "'w env"
  assumes keep: "1 \<le> sint numberOfVersionsToKeep"
      and fetch: "GetContentDetailById env config contentId s = (Return (detail, None), s1)"
      and url: "http_NewRequest_err env ''DELETE'' (ContentVersionUrl (baseUrl config) contentId) = None"
      and answered: "\<forall>t \<in> set (fst (round_trips env (deleteReq env config contentId)
                        (toDelete (Number (Version detail)) numberOfVersionsToKeep) (world s1))).
                      \<exists>r. snd t = Response r"
  shows "\<exists>s' r0.
           RemovePreviousVersions env config contentId numberOfVersionsToKeep s = (Return None, s')
         \<and> trips s1 = trips s @ [(getReq env config contentId, r0)]
         \<and> world s' = snd (round_trips env (deleteReq env config contentId)
                        (toDelete (Number (Version detail)) numberOfVersionsToKeep) (world s1))
         \<and> trips s' = trips s1 @ fst (round_trips env (deleteReq env config contentId)
                        (toDelete (Number (Version detail)) numberOfVersionsToKeep) (world s1))
         \<and> map fst (fst (round_trips env (deleteReq env config contentId)
                        (toDelete (Number (Version detail)) numberOfVersionsToKeep) (world s1))) =
             replicate (toDelete (Number (Version detail)) numberOfVersionsToKeep)
               (deleteReq env config contentId)
         \<and> stdout s' = stdout s1 @
             map (\<lambda>c. DeletingVersion c (ContentVersionUrl (baseUrl config) contentId))
               (countdown (Number (Version detail) - numberOfVersionsToKeep)
                  (toDelete (Number (Version detail)) numberOfVersionsToKeep))
         \<and> logged s' = logged s1 @
             concat (map warning (fst (round_trips env (deleteReq env config contentId)
                        (toDelete (Number (Version detail)) numberOfVersionsToKeep) (world s1))))
         \<and> (- (2 ^ 63) \<le> sint (Number (Version detail)) - sint numberOfVersionsToKeep \<longrightarrow>
              int (toDelete (Number (Version detail)) numberOfVersionsToKeep) =
                max (sint (Number (Version detail)) - sint numberOfVersionsToKeep) 0)"
proof -
  let ?n = "Number (Version detail) - numberOfVersionsToKeep"
  let ?u = "ContentVersionUrl (baseUrl config) contentId"
  let ?auth = "basicAuth env (userName config) (apiKey config)"
  have run: "RemovePreviousVersions env config contentId numberOfVersionsToKeep s =
               deleteLoop env ?u ?auth ?n s1"
    using keep fetch by (simp add: RemovePreviousVersions_def)
  from Get_ok [OF fetch] obtain r0 where
    g: "trips s1 = trips s @ [(getReq env config contentId, r0)]"
    by blast
  from deleteLoop_runs [OF url, of ?auth ?n s1] answered
  obtain s' where loop: "deleteLoop env ?u ?auth ?n s1 = (Return None, s')"
      "world s' = snd (round_trips env (deleteReq env config contentId) (nat (sint ?n)) (world s1))"
      "trips s' = trips s1 @ fst (round_trips env (deleteReq env config contentId) (nat (sint ?n)) (world s1))"
      "stdout s' = stdout s1 @ map (\<lambda>c. DeletingVersion c ?u) (countdown ?n (nat (sint ?n)))"
      "logged s' = logged s1 @ concat (map warning
          (fst (round_trips env (deleteReq env config contentId) (nat (sint ?n)) (world s1))))"
    unfolding deleteReq_def toDelete_def by blast
  have plain: "- (2 ^ 63) \<le> sint (Number (Version detail)) - sint numberOfVersionsToKeep \<longrightarrow>
          int (nat (sint ?n)) = max (sint (Number (Version detail)) - sint numberOfVersionsToKeep) 0"
    using keep by (auto simp: sint_difference)
  show ?thesis
    using run loop g plain round_trips_requests [of env "deleteReq env config contentId" "nat (sint ?n)" "world s1"]
    unfolding toDelete_def by auto
qed


theorem RemovePreviousVersions_runs_the_deletes_witness:
  "1 \<le> sint (1 :: int64)
   \<and> fst (GetContentDetailById scenario_env scenario_config 100 (start store_v3_short)) =
       Return ((page_v 3 ''<p>v3</p>'')\<lparr>ResponseStatusCode := 200, ResponseStatus := ''200 OK''\<rparr>, None)
   \<and> map snd (fst (round_trips scenario_env (deleteReq scenario_env scenario_config 100) 2
         (world (snd (GetContentDetailById scenario_env scenario_config 100 (start store_v3_short)))))) =
       [no_content, respond 400 ''400 Bad Request'' zero_ContentDetail]
   \<and> (\<exists>s'. RemovePreviousVersions scenario_env scenario_config 100 1 (start store_v3_short) =
              (Return None, s')
           \<and> trips s' =
               trips (snd (GetContentDetailById scenario_env scenario_config 100 (start store_v3_short))) @
               fst (round_trips scenario_env (deleteReq scenario_env scenario_config 100) 2
                 (world (snd (GetContentDetailById scenario_env scenario_config 100 (start store_v3_short)))))
           \<and> logged s' = [UnableToDelete 400 ''400 Bad Request''])"
proof -
  let ?d = "(page_v 3 ''<p>v3</p>'')\<lparr>ResponseStatusCode := 200, ResponseStatus := ''200 OK''\<rparr>"
  let ?s1 = "snd (GetContentDetailById scenario_env scenario_config 100 (start store_v3_short))"
  let ?q = "deleteReq scenario_env scenario_config 100"
  have keep: "1 \<le> sint (1 :: int64)" by simp
  have f: "fst (GetContentDetailById scenario_env scenario_config 100 (start store_v3_short)) = Return (?d, None)"
    by code_simp
  then have fetch: "GetContentDetailById scenario_env scenario_config 100 (start store_v3_short) =
      (Return (?d, None), ?s1)"
    by (metis prod.collapse)
  have url: "http_NewRequest_err scenario_env ''DELETE''
               (ContentVersionUrl (baseUrl scenario_config) 100) = None"
    by (simp add: scenario_env_def)
  have n: "toDelete (Number (Version ?d)) 1 = 2"
    by (simp add: page_v_def toDelete_def)
  have rs: "map snd (fst (round_trips scenario_env ?q 2 (world ?s1))) =
              [no_content, respond 400 ''400 Bad Request'' zero_ContentDetail]"
    by code_simp
  have l0: "logged ?s1 = []"
    by code_simp
  have "\<forall>r \<in> set (map snd (fst (round_trips scenario_env ?q 2 (world ?s1)))). \<exists>r'. r = Response r'"
    unfolding rs by (simp add: no_content_def respond_def)
  then have answered: "\<forall>t \<in> set (fst (round_trips scenario_env ?q
        (toDelete (Number (Version ?d)) 1) (world ?s1))). \<exists>r. snd t = Response r"
    unfolding n by simp
  have w: "concat (map warning (fst (round_trips scenario_env ?q 2 (world ?s1)))) =
             [UnableToDelete 400 ''400 Bad Request'']"
    by code_simp
  from RemovePreviousVersions_runs_the_deletes [OF keep fetch url answered]
  show ?thesis
    using keep f rs l0 w unfolding n by auto
qed

text \<open>
  Claim C4 as stated fails when a DELETE fails in the transport: with version 3 fetched and
  one version to keep, two DELETEs are due, but the first round trip returns an error and
  \<open>log.Fatal\<close> ends the process after that one DELETE.
\<close>

theorem RemovePreviousVersions_stops_at_failed_DELETE:
  "fst (GetContentDetailById no_delete_env scenario_config 100 (start store_v3)) =
     Return ((page_v 3 ''<p>v3</p>'')\<lparr>ResponseStatusCode := 200, ResponseStatus := ''200 OK''\<rparr>, None)
   \<and> sint (Number (Version (page_v 3 ''<p>v3</p>'')) - 1) = 2
   \<and> fst (RemovePreviousVersions no_delete_env scenario_config 100 1 (start store_v3)) = Exit 1
   \<and> map wire (sent (snd (RemovePreviousVersions no_delete_env scenario_config 100 1 (start store_v3)))) =
       [(''GET'', ContentDetailUrl ''https://wiki.example'' 100),
        (''DELETE'', ContentVersionUrl ''https://wiki.example'' 100)]
   \<and> logged (snd (RemovePreviousVersions no_delete_env scenario_config 100 1 (start store_v3))) =
       [Fatal (Lib ''read tcp: connection reset by peer'')]"
  by code_simp

text \<open>
  A run in which the second DELETE is refused: the refusal is logged, both DELETEs are sent
  and the call returns nil.
\<close>

lemma RemovePreviousVersions_logs_and_goes_on:
  "fst (RemovePreviousVersions scenario_env scenario_config 100 1 (start store_v3_short)) = Return None
   \<and> map wire (sent (snd (RemovePreviousVersions scenario_env scenario_config 100 1
         (start store_v3_short)))) =
       [(''GET'', ContentDetailUrl ''https://wiki.example'' 100),
        (''DELETE'', ContentVersionUrl ''https://wiki.example'' 100),
        (''DELETE'', ContentVersionUrl ''https://wiki.example'' 100)]
   \<and> logged (snd (RemovePreviousVersions scenario_env scenario_config 100 1 (start store_v3_short))) =
       [UnableToDelete 400 ''400 Bad Request'']"
  by code_simp

section \<open>Validation on the Create and Update paths\<close>




section \<open>Update when the first fetch fails\<close>

text \<open>
  Claim C3, as amended. When the first \<open>GetContentDetailById\<close> of an update does not deliver
  a record with a nil error (it returns an error, or ends the process on a body that is not
  JSON), \<open>UpdateContentById\<close> ends the process with status 1 and sends nothing beyond the
  requests of that fetch, which are GETs of the page: no PUT.
\<close>

theorem Update_stops_when_fetch_fails:
  assumes "\<forall>d. fst (GetContentDetailById env config contentId s) \<noteq> Return (d, None)"
  shows "fst (UpdateContentById env config contentId body removePreviousVersions s) = Exit 1
       \<and> trips (snd (UpdateContentById env config contentId body removePreviousVersions s)) =
           trips (snd (GetContentDetailById env config contentId s))
       \<and> (\<exists>ts. trips (snd (UpdateContentById env config contentId body removePreviousVersions s)) =
                  trips s @ ts
                \<and> (\<forall>t \<in> set ts. fst t = getReq env config contentId))"
proof -
  obtain out s1 where g: "GetContentDetailById env config contentId s = (out, s1)"
    by (cases "GetContentDetailById env config contentId s")
  from Get_outcome [of env config contentId s] g
  have cases: "(\<exists>d e. out = Return (d, Some e)) \<or> out = Exit 1"
    using assms by (auto simp: g)
  have u: "fst (UpdateContentById env config contentId body removePreviousVersions s) = Exit 1
         \<and> trips (snd (UpdateContentById env config contentId body removePreviousVersions s)) = trips s1"
    using cases g by (auto simp: UpdateContentById_def log_Fatal_def)
  from Get_trips [of env config contentId s] g
  obtain ts where "trips s1 = trips s @ ts" "\<forall>t \<in> set ts. fst t = getReq env config contentId"
    by auto
  with u g show ?thesis
    by auto
qed

theorem Update_stops_when_fetch_fails_witness:
  "(\<forall>d. fst (GetContentDetailById down_env scenario_config 100 (start store_v1)) \<noteq> Return (d, None))
   \<and> fst (UpdateContentById down_env scenario_config 100 ''<p>v2</p>'' True (start store_v1)) = Exit 1
   \<and> trips (snd (UpdateContentById down_env scenario_config 100 ''<p>v2</p>'' True (start store_v1))) =
       trips (snd (GetContentDetailById down_env scenario_config 100 (start store_v1)))
   \<and> (\<exists>ts. trips (snd (UpdateContentById down_env scenario_config 100 ''<p>v2</p>'' True (start store_v1))) =
              trips (start store_v1) @ ts
            \<and> (\<forall>t \<in> set ts. fst t = getReq down_env scenario_config 100))"
proof -
  have "fst (GetContentDetailById down_env scenario_config 100 (start store_v1)) =
          Return (zero_ContentDetail, Some (Lib ''dial tcp: connect: connection refused''))"
    by code_simp
  then have h: "\<forall>d. fst (GetContentDetailById down_env scenario_config 100 (start store_v1)) \<noteq> Return (d, None)"
    by simp
  show ?thesis
    using h Update_stops_when_fetch_fails [OF h, of "''<p>v2</p>''" True] by blast
qed

text \<open>
  Claim C3 as stated fails on its example: a 404 whose body decodes is not a failure of
  \<open>GetContentDetailById\<close>, which returns the zero record with status 404 and a nil error,
  and \<open>UpdateContentById\<close> goes on to send the PUT.
\<close>

theorem Update_puts_after_404_counterexample:
  "fst (GetContentDetailById scenario_env scenario_config 100 (start store_empty)) =
     Return (zero_ContentDetail\<lparr>ResponseStatusCode := 404, ResponseStatus := ''404 Not Found''\<rparr>, None)
   \<and> map wire (sent (snd (UpdateContentById scenario_env scenario_config 100 ''<p>v2</p>'' True
         (start store_empty)))) =
       [(''GET'', ContentDetailUrl ''https://wiki.example'' 100),
        (''PUT'', UpdateDeleteContentUrl ''https://wiki.example'' 100)]
   \<and> fst (UpdateContentById scenario_env scenario_config 100 ''<p>v2</p>'' True (start store_empty)) =
       Return (zero_ContentDetail, Some (ErrorUpdating 404 ''404 Not Found''))"
  by code_simp

section \<open>The status of a fetch\<close>

lemma Get_built:
  assumes "http_NewRequest_err env ''GET'' (ContentDetailUrl (baseUrl config) contentId) = None"
  shows "GetContentDetailById env config contentId s =
     (case Do env (getReq env config contentId) s of
        (Failure err, s1) \<Rightarrow> (Return (zero_ContentDetail, Some err), s1)
      | (RedirectFailure resp err, s1) \<Rightarrow> (Return (zero_ContentDetail, Some err), s1)
      | (Response resp, s1) \<Rightarrow>
          (case ReadAll resp of
             (responseData, Some err) \<Rightarrow> (Return (zero_ContentDetail, Some err), s1)
           | (responseData, None) \<Rightarrow>
               (case json_Unmarshal responseData of
                  Inl err \<Rightarrow> (Exit 1, log_Fatal err s1)
                | Inr contentDetail \<Rightarrow>
                    (Return (contentDetail
                               \<lparr>ResponseStatusCode := StatusCode resp,
                                ResponseStatus := Status resp\<rparr>, None), s1))))"
  using assms
  by (simp add: GetContentDetailById_def NewRequest_def Header_Add_def getReq_def Let_def)

text \<open>
  Claim C7, as amended. \<open>GetContentDetailById\<close> never looks at the status of a response; what
  it does is decided by the body. A body that is read and decodes gives the record with the
  status code and the status line of the response written into it and a nil error, whatever
  the status: a 404 with a JSON body gives a record with status 404 and no error. A body
  that is read and does not decode ends the process through \<open>log.Fatal\<close>, and a body that
  cannot be read gives the zero record with the error of the read.
\<close>

theorem GetContentDetailById_by_body:
  assumes url: "http_NewRequest_err env ''GET'' (ContentDetailUrl (baseUrl config) contentId) = None"
      and trip: "client_Do env (getReq env config contentId) (world s) = (Response resp, w)"
  shows "(\<forall>d. ReadAll resp = (Json d, None) \<longrightarrow>
            GetContentDetailById env config contentId s =
              (Return (d\<lparr>ResponseStatusCode := StatusCode resp, ResponseStatus := Status resp\<rparr>, None),
               s\<lparr>world := w, trips := trips s @ [(getReq env config contentId, Response resp)]\<rparr>))
       \<and> (\<forall>t err. ReadAll resp = (Malformed t err, None) \<longrightarrow>
            GetContentDetailById env config contentId s =
              (Exit 1,
               log_Fatal err
                 (s\<lparr>world := w, trips := trips s @ [(getReq env config contentId, Response resp)]\<rparr>)))
       \<and> (\<forall>b err. ReadAll resp = (b, Some err) \<longrightarrow>
            GetContentDetailById env config contentId s =
              (Return (zero_ContentDetail, Some err),
               s\<lparr>world := w, trips := trips s @ [(getReq env config contentId, Response resp)]\<rparr>))"
  using trip by (simp add: Get_built [OF url] Do_def)

theorem GetContentDetailById_by_body_witness:
  "http_NewRequest_err scenario_env ''GET'' (ContentDetailUrl (baseUrl scenario_config) 100) = None
   \<and> client_Do scenario_env (getReq scenario_env scenario_config 100) (world (start store_empty)) =
       (Response \<lparr>StatusCode = 404, Status = ''404 Not Found'', ReadAll = (Json zero_ContentDetail, None)\<rparr>,
        store_empty)
   \<and> GetContentDetailById scenario_env scenario_config 100 (start store_empty) =
       (Return (zero_ContentDetail\<lparr>ResponseStatusCode := 404, ResponseStatus := ''404 Not Found''\<rparr>, None),
        (start store_empty)\<lparr>world := store_empty,
           trips := trips (start store_empty) @
             [(getReq scenario_env scenario_config 100,
               Response \<lparr>StatusCode = 404, Status = ''404 Not Found'',
                          ReadAll = (Json zero_ContentDetail, None)\<rparr>)]\<rparr>)
   \<and> http_NewRequest_err bare_404_env ''GET'' (ContentDetailUrl (baseUrl scenario_config) 100) = None
   \<and> client_Do bare_404_env (getReq bare_404_env scenario_config 100) (world (start store_empty)) =
       (Response bare_404, store_empty)
   \<and> ReadAll bare_404 = (Malformed [] (Lib ''unexpected end of JSON input''), None)
   \<and> GetContentDetailById bare_404_env scenario_config 100 (start store_empty) =
       (Exit 1,
        log_Fatal (Lib ''unexpected end of JSON input'')
          ((start store_empty)\<lparr>world := store_empty,
             trips := trips (start store_empty) @
               [(getReq bare_404_env scenario_config 100, Response bare_404)]\<rparr>))"
proof -
  let ?resp = "\<lparr>StatusCode = 404, Status = ''404 Not Found'', ReadAll = (Json zero_ContentDetail, None)\<rparr>"
  have url: "http_NewRequest_err scenario_env ''GET'' (ContentDetailUrl (baseUrl scenario_config) 100) = None"
    by (simp add: scenario_env_def)
  have trip: "client_Do scenario_env (getReq scenario_env scenario_config 100) (world (start store_empty)) =
       (Response ?resp, store_empty)"
    by (simp add: scenario_env_def store_Do_def getReq_def start_def store_empty_def respond_def)
  have body: "ReadAll ?resp = (Json zero_ContentDetail, None)"
    by simp
  have url': "http_NewRequest_err bare_404_env ''GET'' (ContentDetailUrl (baseUrl scenario_config) 100) = None"
    by (simp add: bare_404_env_def scenario_env_def)
  have trip': "client_Do bare_404_env (getReq bare_404_env scenario_config 100) (world (start store_empty)) =
       (Response bare_404, store_empty)"
    by (simp add: bare_404_env_def bare_404_Do_def start_def)
  have body': "ReadAll bare_404 = (Malformed [] (Lib ''unexpected end of JSON input''), None)"
    by (simp add: bare_404_def)
  note a = GetContentDetailById_by_body [OF url trip]
  note b = GetContentDetailById_by_body [OF url' trip']
  from a body have ra: "GetContentDetailById scenario_env scenario_config 100 (start store_empty) =
       (Return (zero_ContentDetail\<lparr>ResponseStatusCode := StatusCode ?resp, ResponseStatus := Status ?resp\<rparr>, None),
        (start store_empty)\<lparr>world := store_empty,
           trips := trips (start store_empty) @
             [(getReq scenario_env scenario_config 100, Response ?resp)]\<rparr>)"
    by blast
  from b body' have rb: "GetContentDetailById bare_404_env scenario_config 100 (start store_empty) =
       (Exit 1,
        log_Fatal (Lib ''unexpected end of JSON input'')
          ((start store_empty)\<lparr>world := store_empty,
             trips := trips (start store_empty) @
               [(getReq bare_404_env scenario_config 100, Response bare_404)]\<rparr>))"
    by blast
  show ?thesis
    using url trip url' trip' body' ra rb by simp
qed

text \<open>
  Claim C7 as stated fails for a response whose body is not JSON: a 404 with an empty body
  returns neither record nor error, the process ends.
\<close>

theorem GetContentDetailById_exits_on_bare_404:
  "fst (GetContentDetailById bare_404_env scenario_config 100 (start store_empty)) = Exit 1
   \<and> map snd (trips (snd (GetContentDetailById bare_404_env scenario_config 100 (start store_empty)))) =
       [Response bare_404]
   \<and> StatusCode bare_404 = 404
   \<and> logged (snd (GetContentDetailById bare_404_env scenario_config 100 (start store_empty))) =
       [Fatal (Lib ''unexpected end of JSON input'')]"
  by code_simp

section \<open>Deleting a page\<close>

text \<open>
  Claim C10 does not hold of the code. When the round trip of the DELETE fails,
  \<open>client.Do\<close> returns a nil response with the error and \<open>DeleteContentById\<close> dereferences
  it: on a network that refuses the connection the call panics after its one attempt.
\<close>

theorem DeleteContentById_panics_on_transport_failure:
  "fst (DeleteContentById down_env scenario_config 100 (start store_v1)) = Panic
   \<and> map wire (sent (snd (DeleteContentById down_env scenario_config 100 (start store_v1)))) =
       [(''DELETE'', UpdateDeleteContentUrl ''https://wiki.example'' 100)]
   \<and> map snd (trips (snd (DeleteContentById down_env scenario_config 100 (start store_v1)))) =
       [Failure (Lib ''dial tcp: connect: connection refused'')]"
  by code_simp

section \<open>The end-to-end update\<close>

text \<open>
  Claim C2, as amended. Against the store holding page 100 at version 1, the update with
  body \<^verbatim>\<open><p>v2</p>\<close> and pruning sends five requests: the GET of the page, the PUT carrying
  version number 2 and the new body, the GET with which \<open>RemovePreviousVersions\<close> reads the
  version number, one DELETE on the version endpoint, and the final GET. The record returned
  has version number 2 and the new body, and nothing is logged.
\<close>

theorem Update_scenario:
  "map wire_body
     (sent (snd (UpdateContentById scenario_env scenario_config 100 ''<p>v2</p>'' True (start store_v1)))) =
     [(''GET'', ContentDetailUrl ''https://wiki.example'' 100, NoBody),
      (''PUT'', UpdateDeleteContentUrl ''https://wiki.example'' 100,
         UpdateJson \<lparr>Upd_Id = 100, Upd_Status = ''current'', Upd_Title = ''Page'', Upd_SpaceId = 7,
            Upd_Body = \<lparr>Storage = \<lparr>Value = ''<p>v2</p>'', Representation = ''storage''\<rparr>\<rparr>,
            Upd_Version = \<lparr>Op_Number = 2\<rparr>\<rparr>),
      (''GET'', ContentDetailUrl ''https://wiki.example'' 100, NoBody),
      (''DELETE'', ContentVersionUrl ''https://wiki.example'' 100, NoBody),
      (''GET'', ContentDetailUrl ''https://wiki.example'' 100, NoBody)]
   \<and> fst (UpdateContentById scenario_env scenario_config 100 ''<p>v2</p>'' True (start store_v1)) =
       Return ((page_v 2 ''<p>v2</p>'')\<lparr>ResponseStatusCode := 200, ResponseStatus := ''200 OK''\<rparr>, None)
   \<and> Number (Version (page_v 2 ''<p>v2</p>'')) = 2
   \<and> Value (Storage (Body (page_v 2 ''<p>v2</p>''))) = ''<p>v2</p>''
   \<and> logged (snd (UpdateContentById scenario_env scenario_config 100 ''<p>v2</p>'' True (start store_v1))) = []"
  by code_simp

text \<open>
  Claim C2 as stated fails: the sequence GET, PUT, DELETE, GET leaves out the fetch inside
  \<open>RemovePreviousVersions\<close>.
\<close>

theorem Update_scenario_not_four_requests:
  "map wire (sent (snd (UpdateContentById scenario_env scenario_config 100 ''<p>v2</p>'' True
                    (start store_v1)))) \<noteq>
     [(''GET'', ContentDetailUrl ''https://wiki.example'' 100),
      (''PUT'', UpdateDeleteContentUrl ''https://wiki.example'' 100),
      (''DELETE'', ContentVersionUrl ''https://wiki.example'' 100),
      (''GET'', ContentDetailUrl ''https://wiki.example'' 100)]"
  by code_simp

section \<open>The validator of the provider\<close>

lemma token_loop_EOF:
  "token_loop tokens EOF htmlStr =
     (if Contains htmlStr ''<br>'' \<or> Contains htmlStr ''<br/>''
      then Some (InvalidHtml ''Conflence requires: <br />'')
      else if Contains htmlStr ''<hr>'' \<or> Contains htmlStr ''<hr/>''
      then Some (InvalidHtml ''Conflence requires: <hr />'')
      else None)"
  by (induction tokens) simp_all

lemma token_loop_error:
  "err \<noteq> EOF \<Longrightarrow> token_loop tokens err htmlStr = Some err"
  by (induction tokens) simp_all

text \<open>
  Claim C6, as amended. For a string the decoder parses to the end of input,
  \<open>isValidConfluenceHtmlInternal\<close> returns the error that asks for \<^verbatim>\<open><br />\<close> when the string
  contains \<^verbatim>\<open><br>\<close> or \<^verbatim>\<open><br/>\<close>, the error that asks for \<^verbatim>\<open><hr />\<close> when it contains
  \<^verbatim>\<open><hr>\<close> or \<^verbatim>\<open><hr/>\<close> and neither form of \<open>br\<close> (the \<open>br\<close> check comes first and
  returns), and nil when it contains none of the four. For a string on which the decoder
  stops with a syntax error it returns that error. So \<^verbatim>\<open><p>ok</p><br/>\<close> gets the error that
  asks for \<^verbatim>\<open><br />\<close>, while \<^verbatim>\<open><p>ok</p><br>\<close> and \<^verbatim>\<open><p>ok</p><hr>\<close>, whose last element
  is still open when the input ends, get the decoder's \<open>unexpected EOF\<close>.
\<close>

theorem isValidConfluenceHtmlInternal_results:
  "(snd run = EOF \<longrightarrow>
      (Contains htmlStr ''<br>'' \<or> Contains htmlStr ''<br/>'' \<longrightarrow>
         isValidConfluenceHtmlInternal run htmlStr =
           Some (Errorf ''Invalid Html specified. Suggestion: Conflence requires: <br />''))
    \<and> ((Contains htmlStr ''<hr>'' \<or> Contains htmlStr ''<hr/>'')
         \<and> \<not> Contains htmlStr ''<br>'' \<and> \<not> Contains htmlStr ''<br/>'' \<longrightarrow>
         isValidConfluenceHtmlInternal run htmlStr =
           Some (Errorf ''Invalid Html specified. Suggestion: Conflence requires: <hr />''))
    \<and> (\<not> Contains htmlStr ''<hr>'' \<and> \<not> Contains htmlStr ''<hr/>''
         \<and> \<not> Contains htmlStr ''<br>'' \<and> \<not> Contains htmlStr ''<br/>'' \<longrightarrow>
         isValidConfluenceHtmlInternal run htmlStr = None))
   \<and> (snd run \<noteq> EOF \<longrightarrow> isValidConfluenceHtmlInternal run htmlStr = Some (snd run))
   \<and> isValidConfluenceHtmlInternal run_p_br_slash ''<p>ok</p><br/>'' =
       Some (Errorf ''Invalid Html specified. Suggestion: Conflence requires: <br />'')
   \<and> isValidConfluenceHtmlInternal run_p_br ''<p>ok</p><br>'' =
       Some (Lib ''XML syntax error on line 1: unexpected EOF'')
   \<and> isValidConfluenceHtmlInternal run_p_hr ''<p>ok</p><hr>'' =
       Some (Lib ''XML syntax error on line 1: unexpected EOF'')"
proof -
  have general: "(snd run = EOF \<longrightarrow>
      (Contains htmlStr ''<br>'' \<or> Contains htmlStr ''<br/>'' \<longrightarrow>
         isValidConfluenceHtmlInternal run htmlStr =
           Some (Errorf ''Invalid Html specified. Suggestion: Conflence requires: <br />''))
    \<and> ((Contains htmlStr ''<hr>'' \<or> Contains htmlStr ''<hr/>'')
         \<and> \<not> Contains htmlStr ''<br>'' \<and> \<not> Contains htmlStr ''<br/>'' \<longrightarrow>
         isValidConfluenceHtmlInternal run htmlStr =
           Some (Errorf ''Invalid Html specified. Suggestion: Conflence requires: <hr />''))
    \<and> (\<not> Contains htmlStr ''<hr>'' \<and> \<not> Contains htmlStr ''<hr/>''
         \<and> \<not> Contains htmlStr ''<br>'' \<and> \<not> Contains htmlStr ''<br/>'' \<longrightarrow>
         isValidConfluenceHtmlInternal run htmlStr = None))
   \<and> (snd run \<noteq> EOF \<longrightarrow> isValidConfluenceHtmlInternal run htmlStr = Some (snd run))"
    by (cases run)
       (simp add: isValidConfluenceHtmlInternal_def token_loop_EOF token_loop_error InvalidHtml_def)
  have e1: "isValidConfluenceHtmlInternal run_p_br_slash ''<p>ok</p><br/>'' =
       Some (Errorf ''Invalid Html specified. Suggestion: Conflence requires: <br />'')"
    by code_simp
  have e2: "isValidConfluenceHtmlInternal run_p_br ''<p>ok</p><br>'' =
       Some (Lib ''XML syntax error on line 1: unexpected EOF'')"
    by code_simp
  have e3: "isValidConfluenceHtmlInternal run_p_hr ''<p>ok</p><hr>'' =
       Some (Lib ''XML syntax error on line 1: unexpected EOF'')"
    by code_simp
  show ?thesis
    using general e1 e2 e3 by blast
qed

theorem isValidConfluenceHtmlInternal_results_witness:
  "snd run_p_br_slash = EOF
   \<and> Contains ''<p>ok</p><br/>'' ''<br/>''
   \<and> isValidConfluenceHtmlInternal run_p_br_slash ''<p>ok</p><br/>'' =
       Some (Errorf ''Invalid Html specified. Suggestion: Conflence requires: <br />'')
   \<and> snd run_p_hr_slash = EOF
   \<and> Contains ''<p>ok</p><hr/>'' ''<hr/>''
   \<and> \<not> Contains ''<p>ok</p><hr/>'' ''<br>'' \<and> \<not> Contains ''<p>ok</p><hr/>'' ''<br/>''
   \<and> isValidConfluenceHtmlInternal run_p_hr_slash ''<p>ok</p><hr/>'' =
       Some (Errorf ''Invalid Html specified. Suggestion: Conflence requires: <hr />'')
   \<and> snd run_p_br \<noteq> EOF
   \<and> isValidConfluenceHtmlInternal run_p_br ''<p>ok</p><br>'' = Some (snd run_p_br)"
proof -
  have b: "snd run_p_br_slash = EOF" and h: "snd run_p_hr_slash = EOF" and n: "snd run_p_br \<noteq> EOF"
    by (simp_all add: run_p_br_slash_def run_p_hr_slash_def run_p_br_def)
  have cb: "Contains ''<p>ok</p><br/>'' ''<br/>''"
    by code_simp
  have ch: "Contains ''<p>ok</p><hr/>'' ''<hr/>''"
    by code_simp
  have nb: "\<not> Contains ''<p>ok</p><hr/>'' ''<br>''" "\<not> Contains ''<p>ok</p><hr/>'' ''<br/>''"
    by code_simp+
  note t1 = isValidConfluenceHtmlInternal_results [of run_p_br_slash "''<p>ok</p><br/>''"]
  note t2 = isValidConfluenceHtmlInternal_results [of run_p_hr_slash "''<p>ok</p><hr/>''"]
  note t3 = isValidConfluenceHtmlInternal_results [of run_p_br "''<p>ok</p><br>''"]
  from t1 b cb have r1: "isValidConfluenceHtmlInternal run_p_br_slash ''<p>ok</p><br/>'' =
       Some (Errorf ''Invalid Html specified. Suggestion: Conflence requires: <br />'')"
    by blast
  from t2 h ch nb have r2: "isValidConfluenceHtmlInternal run_p_hr_slash ''<p>ok</p><hr/>'' =
       Some (Errorf ''Invalid Html specified. Suggestion: Conflence requires: <hr />'')"
    by blast
  from t3 n have r3: "isValidConfluenceHtmlInternal run_p_br ''<p>ok</p><br>'' = Some (snd run_p_br)"
    by blast
  show ?thesis
    using b h n cb ch nb r1 r2 r3 by blast
qed

text \<open>
  Claim C6 as stated fails twice. A string with both tags, \<^verbatim>\<open><br/><hr/>\<close>, parses to the end
  of input and contains \<^verbatim>\<open><hr/>\<close>, yet the error returned asks for \<^verbatim>\<open><br />\<close> and does not
  mention \<^verbatim>\<open><hr />\<close>. And two of the three examples do not parse to the end of input: the
  error returned for them is the decoder's and names neither replacement form.
\<close>

theorem isValidConfluenceHtmlInternal_not_as_claimed:
  "snd run_br_hr_slash = EOF
   \<and> Contains ''<br/><hr/>'' ''<hr/>''
   \<and> isValidConfluenceHtmlInternal run_br_hr_slash ''<br/><hr/>'' =
       Some (Errorf ''Invalid Html specified. Suggestion: Conflence requires: <br />'')
   \<and> \<not> Contains ''Invalid Html specified. Suggestion: Conflence requires: <br />'' ''<hr />''
   \<and> isValidConfluenceHtmlInternal run_p_br ''<p>ok</p><br>'' =
       Some (Lib ''XML syntax error on line 1: unexpected EOF'')
   \<and> \<not> Contains ''XML syntax error on line 1: unexpected EOF'' ''<br />''
   \<and> isValidConfluenceHtmlInternal run_p_hr ''<p>ok</p><hr>'' =
       Some (Lib ''XML syntax error on line 1: unexpected EOF'')
   \<and> \<not> Contains ''XML syntax error on line 1: unexpected EOF'' ''<hr />''"
  by code_simp

end
